theory Spec2Isabelle
  imports Main "HOL-Library.Sublist"
begin

section \<open>Strings and numbers of the Go runtime\<close>

text \<open>
  Go strings are modelled as \<^typ>\<open>string\<close> restricted to ASCII text: on ASCII input
  \<open>strings.ToLower\<close> and \<open>strings.ToUpper\<close> change exactly the 26 letters, which is
  what \<open>ToLower\<close> and \<open>ToUpper\<close> below do. Go's \<open>int\<close> is modelled as \<^typ>\<open>int\<close>.
\<close>

definition upperLetters :: string where
  "upperLetters = ''ABCDEFGHIJKLMNOPQRSTUVWXYZ''"

definition lowerLetters :: string where
  "lowerLetters = ''abcdefghijklmnopqrstuvwxyz''"

definition lowerChar :: "char \<Rightarrow> char" where
  "lowerChar c = (case map_of (zip upperLetters lowerLetters) c of None \<Rightarrow> c | Some d \<Rightarrow> d)"

definition upperChar :: "char \<Rightarrow> char" where
  "upperChar c = (case map_of (zip lowerLetters upperLetters) c of None \<Rightarrow> c | Some d \<Rightarrow> d)"

definition ToLower :: "string \<Rightarrow> string" where
  "ToLower s = map lowerChar s"

definition ToUpper :: "string \<Rightarrow> string" where
  "ToUpper s = map upperChar s"

text \<open>\<open>strings.Join(parts, sep)\<close>.\<close>

fun Join :: "string list \<Rightarrow> string \<Rightarrow> string" where
  "Join [] sep = []"
| "Join [p] sep = p"
| "Join (p # q # ps) sep = p @ sep @ Join (q # ps) sep"

text \<open>The decimal rendering of \<open>%d\<close> in \<open>fmt.Sprintf\<close>.\<close>

definition digitChar :: "nat \<Rightarrow> char" where
  "digitChar d = ''0123456789'' ! d"

fun itoaNat :: "nat \<Rightarrow> string" where
  "itoaNat n = (if n < 10 then [digitChar n] else itoaNat (n div 10) @ [digitChar (n mod 10)])"

declare itoaNat.simps [simp del]

definition itoa :: "int \<Rightarrow> string" where
  "itoa i = (if i < 0 then CHR ''-'' # itoaNat (nat (- i)) else itoaNat (nat i))"

text \<open>\<open>strings.Count(s, "?")\<close>: the number of placeholders of an SQL text.\<close>

definition placeholders :: "string \<Rightarrow> nat" where
  "placeholders s = length (filter (\<lambda>c. c = CHR ''?'') s)"

text \<open>\<open>strings.Contains(s, sub)\<close>.\<close>

fun Contains :: "string \<Rightarrow> string \<Rightarrow> bool" where
  "Contains [] sub = (sub = [])"
| "Contains (c # s) sub = (prefix sub (c # s) \<or> Contains s sub)"

section \<open>The intermediate representation (package ir)\<close>

text \<open>
  \<open>QueryType\<close> is kept as the integer it is in Go, because \<open>Generate\<close> gives values
  outside the four constants a result of their own. The other enumerations are closed
  datatypes; a \<open>time.Time\<close> is the number of seconds since 1970-01-01T00:00:00Z.
\<close>

type_synonym QueryType = int

definition QueryTypeShows :: QueryType where "QueryTypeShows = 0"
definition QueryTypeSongs :: QueryType where "QueryTypeSongs = 1"
definition QueryTypePerformances :: QueryType where "QueryTypePerformances = 2"
definition QueryTypeSetlist :: QueryType where "QueryTypeSetlist = 3"

datatype SegueOp = SegueOpSegue | SegueOpBreak | SegueOpTease
datatype SetPosition = SetAny | Set1 | Set2 | Set3 | Encore
datatype PositionOp = PosOpened | PosClosed | PosEquals
datatype CompOp = CompGT | CompLT | CompEQ | CompGTE | CompLTE | CompNEQ
datatype LogicOp = OpAnd | OpOr
datatype OutputFormat =
  OutputDefault | OutputJSON | OutputCSV | OutputSetlist | OutputCalendar | OutputTable

type_synonym Time = int

record ResolvedDateRange =
  Start :: Time
  End :: Time

record SegueChainIR =
  SongIDs :: "int list"
  Operators :: "SegueOp list"

datatype ConditionIR =
    PositionConditionIR SetPosition PositionOp int
  | LyricsConditionIR "string list" LogicOp
  | LengthConditionIR "int option" CompOp int
  | PlayedConditionIR int
  | GuestConditionIR string

record OrderByIR =
  Field :: string
  Desc :: bool

record QueryIR =
  Type :: QueryType
  DateRange :: "ResolvedDateRange option"
  SingleDate :: "Time option"
  SongID :: "int option"
  SegueChain :: "SegueChainIR option"
  Conditions :: "ConditionIR list"
  OrderBy :: "OrderByIR option"
  Limit :: "int option"
  OutputFmt :: OutputFormat

text \<open>The zero value \<open>&ir.QueryIR{Type: t}\<close>.\<close>

definition emptyIR :: "QueryType \<Rightarrow> QueryIR" where
  "emptyIR t = \<lparr>Type = t, DateRange = None, SingleDate = None, SongID = None,
     SegueChain = None, Conditions = [], OrderBy = None, Limit = None,
     OutputFmt = OutputDefault\<rparr>"

section \<open>Time (the part of package time the program uses)\<close>

text \<open>
  \<open>time.Date(y, m, d, hh, mm, ss, 0, time.UTC)\<close> in the proleptic Gregorian
  calendar, as seconds since the Unix epoch. As in Go, a month outside 1..12 carries
  into the year, and day, hour, minute and second are added without a range check.
  The model computes on unbounded integers, while Go holds the seconds in 64 bits and
  wraps: the two agree only while the count of seconds fits. \<open>timeYearOK\<close> is a
  range of years well inside that (the first year for which the end of the year wraps in
  Go is 292277024627); a statement about instants of \<open>time_Date\<close> is a statement
  about the program for such years only.
\<close>

definition timeYearOK :: "int \<Rightarrow> bool" where
  "timeYearOK y = (0 \<le> y \<and> y \<le> 1000000000)"

definition isLeap :: "int \<Rightarrow> bool" where
  "isLeap y = (y mod 4 = 0 \<and> (y mod 100 \<noteq> 0 \<or> y mod 400 = 0))"

definition daysBeforeYear :: "int \<Rightarrow> int" where
  "daysBeforeYear y =
     365 * (y - 1970) + ((y - 1) div 4 - (y - 1) div 100 + (y - 1) div 400) - 477"

definition daysBefore :: "int \<Rightarrow> int" where
  "daysBefore m = [0, 31, 59, 90, 120, 151, 181, 212, 243, 273, 304, 334] ! nat (m - 1)"

definition time_Date :: "int \<Rightarrow> int \<Rightarrow> int \<Rightarrow> int \<Rightarrow> int \<Rightarrow> int \<Rightarrow> Time" where
  "time_Date year month day hour minute sec =
     (let y = year + (month - 1) div 12;
          m = (month - 1) mod 12 + 1;
          d = daysBeforeYear y + daysBefore m + (if isLeap y \<and> 3 \<le> m then 1 else 0) + (day - 1)
      in d * 86400 + hour * 3600 + minute * 60 + sec)"

text \<open>The zero \<open>time.Time{}\<close>: January 1 of year 1, 00:00:00 UTC.\<close>

definition zeroTime :: Time where
  "zeroTime = time_Date 1 1 1 0 0 0"

text \<open>Year, month and day of a time in UTC (\<open>t.Date()\<close>).\<close>

definition civilDate :: "Time \<Rightarrow> int \<times> int \<times> int" where
  "civilDate t =
     (let z = t div 86400 + 719468;
          era = z div 146097;
          doe = z mod 146097;
          yoe = (doe - doe div 1460 + doe div 36524 - doe div 146096) div 365;
          doy = doe - (365 * yoe + yoe div 4 - yoe div 100);
          mp = (5 * doy + 2) div 153;
          d = doy - (153 * mp + 2) div 5 + 1;
          m = (if mp < 10 then mp + 3 else mp - 9);
          y = yoe + era * 400 + (if m \<le> 2 then 1 else 0)
      in (y, m, d))"

definition padInt :: "int \<Rightarrow> nat \<Rightarrow> string" where
  "padInt i w =
     (let s = itoaNat (nat \<bar>i\<bar>)
      in (if i < 0 then ''-'' else []) @ replicate (w - length s) (CHR ''0'') @ s)"

text \<open>\<open>formatDate(t) = t.Format("2006-01-02")\<close>.\<close>

definition formatDate :: "Time \<Rightarrow> string" where
  "formatDate t =
     (case civilDate t of (y, m, d) \<Rightarrow> padInt y 4 @ ''-'' @ padInt m 2 @ ''-'' @ padInt d 2)"

section \<open>The SQL generator (package sqlgen)\<close>

text \<open>
  An element of \<open>Args []interface{}\<close> is an \<open>int\<close> or a \<open>string\<close>. An error of
  \<open>Generate\<close> is the \<open>fmt.Errorf\<close> value with its message, or the run-time panic of
  dereferencing a nil pointer.
\<close>

datatype arg = ArgInt int | ArgStr string

record SQLQuery =
  SQL :: string
  Args :: "arg list"

datatype gen_error = GenerationError string | NilPointerPanic

text \<open>The SQL text literals of generator.go and segue.go, named.\<close>

definition sqlShowsSelect :: string where
  "sqlShowsSelect = ''SELECT s.id, s.date, s.venue_id, v.name AS venue, v.city, v.state, s.notes, s.rating FROM shows s LEFT JOIN venues v ON s.venue_id = v.id''"

definition sqlSegueSelect :: string where
  "sqlSegueSelect = ''SELECT DISTINCT s.id, s.date, s.venue_id, v.name AS venue, v.city, v.state, s.notes, s.rating FROM ''"

definition sqlPosOpened :: string where
  "sqlPosOpened = ''EXISTS (SELECT 1 FROM performances p WHERE p.show_id = s.id AND p.set_number = ? AND p.song_id = ? AND p.is_opener = 1)''"

definition sqlPosClosed :: string where
  "sqlPosClosed = ''EXISTS (SELECT 1 FROM performances p WHERE p.show_id = s.id AND p.set_number = ? AND p.song_id = ? AND p.is_closer = 1)''"

definition sqlPosEquals :: string where
  "sqlPosEquals = ''EXISTS (SELECT 1 FROM performances p WHERE p.show_id = s.id AND p.set_number = ? AND p.song_id = ?)''"

definition sqlPlayed :: string where
  "sqlPlayed = ''EXISTS (SELECT 1 FROM performances p WHERE p.show_id = s.id AND p.song_id = ?)''"

definition sqlGuest :: string where
  "sqlGuest = ''EXISTS (SELECT 1 FROM performances p WHERE p.show_id = s.id AND p.guest IS NOT NULL AND p.guest != '' @ [CHR 0x27, CHR 0x27] @ '' AND (p.guest = ? OR p.guest LIKE ?))''"

definition sqlSeguePosOpened :: string where
  "sqlSeguePosOpened = ''EXISTS (SELECT 1 FROM performances px WHERE px.show_id = s.id AND px.set_number = ? AND px.song_id = ? AND px.is_opener = 1)''"

definition sqlSeguePosClosed :: string where
  "sqlSeguePosClosed = ''EXISTS (SELECT 1 FROM performances px WHERE px.show_id = s.id AND px.set_number = ? AND px.song_id = ? AND px.is_closer = 1)''"

definition sqlSeguePosEquals :: string where
  "sqlSeguePosEquals = ''EXISTS (SELECT 1 FROM performances px WHERE px.show_id = s.id AND px.set_number = ? AND px.song_id = ?)''"

definition sqlSeguePlayed :: string where
  "sqlSeguePlayed = ''EXISTS (SELECT 1 FROM performances px WHERE px.show_id = s.id AND px.song_id = ?)''"

definition sqlSegueGuest :: string where
  "sqlSegueGuest = ''EXISTS (SELECT 1 FROM performances px WHERE px.show_id = s.id AND px.guest IS NOT NULL AND (px.guest = ? OR px.guest LIKE ?))''"

definition sqlSegueShowsJoin :: string where
  "sqlSegueShowsJoin = '' JOIN shows s ON p1.show_id = s.id LEFT JOIN venues v ON s.venue_id = v.id''"

definition sqlDateRange :: string where
  "sqlDateRange = ''s.date >= ? AND s.date <= ?''"

definition sqlLyricsExists :: string where
  "sqlLyricsExists = ''EXISTS (SELECT 1 FROM lyrics l WHERE l.song_id = songs.id AND (''"

definition sqlSongsSelect :: string where
  "sqlSongsSelect = ''SELECT id, name, short_name, writers, first_played, last_played, times_played FROM songs''"

definition sqlSongsDateRange :: string where
  "sqlSongsDateRange = ''first_played >= ? AND last_played <= ?''"

definition sqlPerformancesSelect :: string where
  "sqlPerformancesSelect = ''SELECT p.id, p.show_id, p.song_id, p.set_number, p.position, p.segue_type, p.length_seconds FROM performances p JOIN shows s ON p.show_id = s.id WHERE p.song_id = ?''"

definition sqlPerformancesDateRange :: string where
  "sqlPerformancesDateRange = '' AND s.date >= ? AND s.date <= ?''"

definition sqlSetlist :: string where
  "sqlSetlist = ''SELECT p.id, p.show_id, p.song_id, p.set_number, p.position, p.segue_type, p.length_seconds, songs.name FROM performances p JOIN shows s ON p.show_id = s.id JOIN songs ON p.song_id = songs.id WHERE s.date = ? ORDER BY p.set_number, p.position''"

definition setPositionToNumber :: "SetPosition \<Rightarrow> int" where
  "setPositionToNumber s =
     (case s of Set1 \<Rightarrow> 1 | Set2 \<Rightarrow> 2 | Set3 \<Rightarrow> 3 | Encore \<Rightarrow> 3 | SetAny \<Rightarrow> 0)"

definition positionCondition :: "SetPosition \<Rightarrow> PositionOp \<Rightarrow> int \<Rightarrow> string \<times> arg list" where
  "positionCondition st opr songID =
     (let setNum = setPositionToNumber st in
      case opr of
        PosOpened \<Rightarrow>
          (sqlPosOpened,
           [ArgInt setNum, ArgInt songID])
      | PosClosed \<Rightarrow>
          (sqlPosClosed,
           [ArgInt setNum, ArgInt songID])
      | PosEquals \<Rightarrow>
          (sqlPosEquals,
           [ArgInt setNum, ArgInt songID]))"

text \<open>The loop of \<open>whereShows\<close> over \<open>q.Conditions\<close>, with its two accumulators.\<close>

fun whereShowsConds :: "ConditionIR list \<Rightarrow> string list \<Rightarrow> arg list \<Rightarrow> string list \<times> arg list" where
  "whereShowsConds [] parts args = (parts, args)"
| "whereShowsConds (PositionConditionIR st opr songID # cs) parts args =
     (case positionCondition st opr songID of
        (part, a) \<Rightarrow> whereShowsConds cs (parts @ [part]) (args @ a))"
| "whereShowsConds (PlayedConditionIR songID # cs) parts args =
     whereShowsConds cs
       (parts @ [sqlPlayed])
       (args @ [ArgInt songID])"
| "whereShowsConds (GuestConditionIR name # cs) parts args =
     whereShowsConds cs
       (parts @ [sqlGuest])
       (args @ [ArgStr name, ArgStr (''%'' @ name @ ''%'')])"
| "whereShowsConds (_ # cs) parts args = whereShowsConds cs parts args"

definition dateRangeArgs :: "ResolvedDateRange \<Rightarrow> arg list" where
  "dateRangeArgs r = [ArgStr (formatDate (Start r)), ArgStr (formatDate (End r))]"

definition whereShows :: "QueryIR \<Rightarrow> string \<times> arg list" where
  "whereShows q =
     (case (case DateRange q of
              None \<Rightarrow> ([], [])
            | Some r \<Rightarrow> ([sqlDateRange], dateRangeArgs r)) of
        (parts0, args0) \<Rightarrow>
          (case whereShowsConds (Conditions q) parts0 args0 of
             (parts, args) \<Rightarrow> (Join parts '' AND '', args)))"

definition orderBy :: "QueryIR \<Rightarrow> string \<Rightarrow> string" where
  "orderBy q pfx =
     (case OrderBy q of
        None \<Rightarrow> []
      | Some ob \<Rightarrow>
          (let field = (if Field ob = [] then ''date'' else Field ob);
               dir = (if Desc ob then ''DESC'' else ''ASC'');
               col0 = pfx @ ''.'' @ ToLower field;
               u = ToUpper field;
               col = (if u = ''DATE'' then pfx @ ''.date''
                      else if u = ''LENGTH'' then (if pfx = ''p'' then ''p.length_seconds'' else col0)
                      else if u = ''RATING'' then pfx @ ''.rating''
                      else if u = ''NAME'' then pfx @ ''.name''
                      else if u = ''TIMES_PLAYED'' then pfx @ ''.times_played''
                      else col0)
           in ''ORDER BY '' @ col @ '' '' @ dir))"

definition limit :: "QueryIR \<Rightarrow> string" where
  "limit q = (case Limit q of None \<Rightarrow> [] | Some _ \<Rightarrow> ''LIMIT ?'')"

definition segueOpToSQL :: "SegueOp \<Rightarrow> string" where
  "segueOpToSQL opr = (case opr of SegueOpSegue \<Rightarrow> ''>'' | SegueOpBreak \<Rightarrow> ''>>'' | SegueOpTease \<Rightarrow> ''~>'')"

definition compOpSQL :: "CompOp \<Rightarrow> string" where
  "compOpSQL opr =
     (case opr of CompGT \<Rightarrow> ''>'' | CompLT \<Rightarrow> ''<'' | CompEQ \<Rightarrow> ''=''
      | CompGTE \<Rightarrow> ''>='' | CompLTE \<Rightarrow> ''<='' | CompNEQ \<Rightarrow> ''!='')"

text \<open>\<open>BuildSegueShowsSQL\<close> (segue.go). Its four loops, each with the builder it extends.\<close>

function padOps :: "SegueOp list \<Rightarrow> nat \<Rightarrow> SegueOp list" where
  "padOps ops n = (if length ops < n - 1 then padOps (ops @ [SegueOpSegue]) n else ops)"
  by pat_completeness auto
termination
  by (relation "measure (\<lambda>(ops, n). (n - 1) - length ops)") auto

declare padOps.simps [simp del]

function performanceJoins :: "nat \<Rightarrow> nat \<Rightarrow> string \<Rightarrow> string" where
  "performanceJoins i n b =
     (if i < n then
        (let alias = ''p'' @ itoa (int i + 1) in
         if i = 0 then performanceJoins (i + 1) n (b @ ''performances '' @ alias)
         else
           (let prev = ''p'' @ itoa (int i) in
            performanceJoins (i + 1) n
              (b @ '' JOIN performances '' @ alias @ '' ON '' @ prev @ ''.show_id = '' @ alias
                 @ ''.show_id AND '' @ prev @ ''.set_number = '' @ alias @ ''.set_number AND ''
                 @ prev @ ''.position = '' @ alias @ ''.position - 1'')))
      else b)"
  by pat_completeness auto
termination
  by (relation "measure (\<lambda>(i, n, b). n - i)") auto

declare performanceJoins.simps [simp del]

function songJoins :: "int list \<Rightarrow> nat \<Rightarrow> nat \<Rightarrow> string \<times> arg list \<Rightarrow> string \<times> arg list" where
  "songJoins ids i n (b, args) =
     (if i < n then
        (let k = itoa (int i + 1) in
         songJoins ids (i + 1) n
           (b @ '' JOIN songs s'' @ k @ '' ON p'' @ k @ ''.song_id = s'' @ k @ ''.id AND s'' @ k @ ''.id = ?'',
            args @ [ArgInt (ids ! i)]))
      else (b, args))"
  by pat_completeness auto
termination
  by (relation "measure (\<lambda>(ids, i, n, ba). n - i)") auto

declare songJoins.simps [simp del]

function segueTypes :: "SegueOp list \<Rightarrow> nat \<Rightarrow> nat \<Rightarrow> string \<times> arg list \<Rightarrow> string \<times> arg list" where
  "segueTypes ops i n (b, args) =
     (if i < n - 1 then
        segueTypes ops (i + 1) n
          (b @ '' AND p'' @ itoa (int i + 1) @ ''.segue_type = ?'',
           args @ [ArgStr (segueOpToSQL (ops ! i))])
      else (b, args))"
  by pat_completeness auto
termination
  by (relation "measure (\<lambda>(ops, i, n, ba). (n - 1) - i)") auto

declare segueTypes.simps [simp del]

fun segueWhereConds :: "ConditionIR list \<Rightarrow> string list \<Rightarrow> arg list \<Rightarrow> string list \<times> arg list" where
  "segueWhereConds [] whereParts args = (whereParts, args)"
| "segueWhereConds (PositionConditionIR st opr songID # cs) whereParts args =
     (let setNum = setPositionToNumber st;
          whereParts' = (case opr of
             PosOpened \<Rightarrow> whereParts @ [sqlSeguePosOpened]
           | PosClosed \<Rightarrow> whereParts @ [sqlSeguePosClosed]
           | PosEquals \<Rightarrow> whereParts @ [sqlSeguePosEquals])
      in segueWhereConds cs whereParts' (args @ [ArgInt setNum, ArgInt songID]))"
| "segueWhereConds (PlayedConditionIR songID # cs) whereParts args =
     segueWhereConds cs
       (whereParts @ [sqlSeguePlayed])
       (args @ [ArgInt songID])"
| "segueWhereConds (GuestConditionIR name # cs) whereParts args =
     segueWhereConds cs
       (whereParts @ [sqlSegueGuest])
       (args @ [ArgStr name, ArgStr (''%'' @ name @ ''%'')])"
| "segueWhereConds (_ # cs) whereParts args = segueWhereConds cs whereParts args"

definition segueTail :: "QueryIR \<Rightarrow> string \<times> arg list \<Rightarrow> string \<times> arg list" where
  "segueTail q ba =
     (case ba of (b0, args0) \<Rightarrow>
      (let b1 = b0 @ sqlSegueShowsJoin in
       case (case DateRange q of
               None \<Rightarrow> ([], args0)
             | Some r \<Rightarrow> ([sqlDateRange], args0 @ dateRangeArgs r)) of
         (wp0, args1) \<Rightarrow>
           (case segueWhereConds (Conditions q) wp0 args1 of
              (whereParts, args2) \<Rightarrow>
                (let b2 = (if 0 < length whereParts then b1 @ '' WHERE '' @ Join whereParts '' AND '' else b1);
                     b3 = (case OrderBy q of
                             None \<Rightarrow> b2
                           | Some ob \<Rightarrow> b2 @ '' ORDER BY s.date '' @ (if Desc ob then ''DESC'' else ''ASC''))
                 in (case Limit q of
                       None \<Rightarrow> (b3, args2)
                     | Some l \<Rightarrow> (b3 @ '' LIMIT ?'', args2 @ [ArgInt l]))))))"

definition BuildSegueShowsSQL :: "QueryIR \<Rightarrow> gen_error + SQLQuery" where
  "BuildSegueShowsSQL q =
     (case SegueChain q of
        None \<Rightarrow> Inl (GenerationError ''segue chain requires at least 2 songs'')
      | Some chain \<Rightarrow>
          if length (SongIDs chain) < 2
          then Inl (GenerationError ''segue chain requires at least 2 songs'')
          else
            (let n = length (SongIDs chain);
                 ops = padOps (Operators chain) n;
                 b = sqlSegueSelect;
                 b = performanceJoins 0 n b
             in case segueTail q (segueTypes ops 0 n (songJoins (SongIDs chain) 0 n (b, []))) of
                  (sql, args) \<Rightarrow> Inr \<lparr>SQL = sql, Args = args\<rparr>))"

text \<open>generator.go.\<close>

definition genShowsWithSegue :: "QueryIR \<Rightarrow> gen_error + SQLQuery" where
  "genShowsWithSegue q = BuildSegueShowsSQL q"

definition genShows :: "QueryIR \<Rightarrow> gen_error + SQLQuery" where
  "genShows q =
     (if (case SegueChain q of None \<Rightarrow> False | Some chain \<Rightarrow> 2 \<le> length (SongIDs chain))
      then genShowsWithSegue q
      else
        (let b0 = sqlShowsSelect in
         case whereShows q of
           (wh, wa) \<Rightarrow>
             (case (if wh \<noteq> [] then (b0 @ '' WHERE '' @ wh, wa) else (b0, [])) of
                (b1, args1) \<Rightarrow>
                  (let ord = orderBy q ''s'';
                       b2 = (if ord \<noteq> [] then b1 @ '' '' @ ord else b1);
                       lim = limit q
                   in (case Limit q of
                         None \<Rightarrow> Inr \<lparr>SQL = b2, Args = args1\<rparr>
                       | Some l \<Rightarrow>
                           if lim \<noteq> [] then Inr \<lparr>SQL = b2 @ '' '' @ lim, Args = args1 @ [ArgInt l]\<rparr>
                           else Inr \<lparr>SQL = b2, Args = args1\<rparr>)))))"

text \<open>The loop of \<open>genSongs\<close> over \<open>q.Conditions\<close>; only lyrics conditions contribute.\<close>

fun songsConds :: "ConditionIR list \<Rightarrow> string list \<Rightarrow> arg list \<Rightarrow> string list \<times> arg list" where
  "songsConds [] parts args = (parts, args)"
| "songsConds (LyricsConditionIR ws lop # cs) parts args =
     (if length ws = 0 then songsConds cs parts args
      else
        (let likes = map (\<lambda>w. ''l.lyrics LIKE ?'') ws;
             args' = args @ map (\<lambda>w. ArgStr (''%'' @ w @ ''%'')) ws;
             opr = (if lop = OpOr then '' OR '' else '' AND '')
         in songsConds cs
              (parts @ [sqlLyricsExists @ Join likes opr @ ''))''])
              args'))"
| "songsConds (_ # cs) parts args = songsConds cs parts args"

definition genSongs :: "QueryIR \<Rightarrow> gen_error + SQLQuery" where
  "genSongs q =
     (let b0 = sqlSongsSelect in
      case songsConds (Conditions q) [] [] of
        (parts0, args0) \<Rightarrow>
          (case (case DateRange q of
                   None \<Rightarrow> (parts0, args0)
                 | Some r \<Rightarrow> (parts0 @ [sqlSongsDateRange], args0 @ dateRangeArgs r)) of
             (parts, args1) \<Rightarrow>
               (let b1 = (if 0 < length parts then b0 @ '' WHERE '' @ Join parts '' AND '' else b0);
                    ord = orderBy q ''songs'';
                    b2 = (if ord \<noteq> [] then b1 @ '' '' @ ord else b1)
                in (case Limit q of
                      None \<Rightarrow> Inr \<lparr>SQL = b2, Args = args1\<rparr>
                    | Some l \<Rightarrow> Inr \<lparr>SQL = b2 @ '' LIMIT ?'', Args = args1 @ [ArgInt l]\<rparr>))))"

text \<open>The loop of \<open>genPerformances\<close> over \<open>q.Conditions\<close>; only length conditions contribute.\<close>

fun performancesConds :: "ConditionIR list \<Rightarrow> string \<times> arg list \<Rightarrow> string \<times> arg list" where
  "performancesConds [] ba = ba"
| "performancesConds (LengthConditionIR sid opr secs # cs) (b, args) =
     performancesConds cs (b @ '' AND p.length_seconds '' @ compOpSQL opr @ '' ?'', args @ [ArgInt secs])"
| "performancesConds (_ # cs) ba = performancesConds cs ba"

definition genPerformances :: "QueryIR \<Rightarrow> gen_error + SQLQuery" where
  "genPerformances q =
     (case SongID q of
        None \<Rightarrow> Inl NilPointerPanic
      | Some songID \<Rightarrow>
          (let b0 = sqlPerformancesSelect;
               args0 = [ArgInt songID]
           in case (case DateRange q of
                      None \<Rightarrow> (b0, args0)
                    | Some r \<Rightarrow> (b0 @ sqlPerformancesDateRange, args0 @ dateRangeArgs r)) of
                ba1 \<Rightarrow>
                  (case performancesConds (Conditions q) ba1 of
                     (b2, args2) \<Rightarrow>
                       (let ord = orderBy q ''p'';
                            b3 = (if ord \<noteq> [] then b2 @ '' '' @ ord else b2)
                        in (case Limit q of
                              None \<Rightarrow> Inr \<lparr>SQL = b3, Args = args2\<rparr>
                            | Some l \<Rightarrow> Inr \<lparr>SQL = b3 @ '' LIMIT ?'', Args = args2 @ [ArgInt l]\<rparr>)))))"

definition genSetlist :: "QueryIR \<Rightarrow> gen_error + SQLQuery" where
  "genSetlist q =
     (case SingleDate q of
        None \<Rightarrow> Inl (GenerationError ''setlist query requires a date'')
      | Some d \<Rightarrow>
          Inr \<lparr>SQL = sqlSetlist,
               Args = [ArgStr (formatDate d)]\<rparr>)"

definition Generate :: "QueryIR \<Rightarrow> gen_error + SQLQuery" where
  "Generate q =
     (if Type q = QueryTypeShows then genShows q
      else if Type q = QueryTypeSongs then genSongs q
      else if Type q = QueryTypePerformances then genPerformances q
      else if Type q = QueryTypeSetlist then genSetlist q
      else Inl (GenerationError (''unknown query type: '' @ itoa (Type q))))"

section \<open>The segue query, piece by piece\<close>

text \<open>
  The pieces that the specification counts in the SQL of a segue chain, each as the
  text one loop iteration of \<open>BuildSegueShowsSQL\<close> writes for index \<open>i\<close> (from 0):
  the join that introduces alias \<open>p(i+1)\<close> next to \<open>p(i)\<close>, the \<open>songs\<close> join
  of alias \<open>p(i+1)\<close>, and the \<open>segue_type\<close> constraint of transition \<open>i+1\<close>.
\<close>

definition adjacencyJoin :: "nat \<Rightarrow> string" where
  "adjacencyJoin i =
     '' JOIN performances p'' @ itoa (int i + 1) @ '' ON p'' @ itoa (int i) @ ''.show_id = p''
       @ itoa (int i + 1) @ ''.show_id AND p'' @ itoa (int i) @ ''.set_number = p''
       @ itoa (int i + 1) @ ''.set_number AND p'' @ itoa (int i) @ ''.position = p''
       @ itoa (int i + 1) @ ''.position - 1''"

definition songsJoin :: "nat \<Rightarrow> string" where
  "songsJoin i =
     '' JOIN songs s'' @ itoa (int i + 1) @ '' ON p'' @ itoa (int i + 1) @ ''.song_id = s''
       @ itoa (int i + 1) @ ''.id AND s'' @ itoa (int i + 1) @ ''.id = ?''"

definition segueTypeConstraint :: "nat \<Rightarrow> string" where
  "segueTypeConstraint i = '' AND p'' @ itoa (int i + 1) @ ''.segue_type = ?''"

text \<open>
  The arguments one condition binds in a shows query, as the specification lists them:
  set number and song id for a position condition, the song id for a played condition,
  the name and the name between percent signs for a guest condition.
\<close>

fun conditionArgs :: "ConditionIR \<Rightarrow> arg list" where
  "conditionArgs (PositionConditionIR st opr songID) = [ArgInt (setPositionToNumber st), ArgInt songID]"
| "conditionArgs (PlayedConditionIR songID) = [ArgInt songID]"
| "conditionArgs (GuestConditionIR name) = [ArgStr name, ArgStr (''%'' @ name @ ''%'')]"
| "conditionArgs _ = []"

definition outerArgs :: "QueryIR \<Rightarrow> arg list" where
  "outerArgs q =
     (case DateRange q of None \<Rightarrow> [] | Some r \<Rightarrow> dateRangeArgs r)
     @ concat (map conditionArgs (Conditions q))"

section \<open>strings and strconv helpers\<close>

text \<open>ASCII white space, as \<open>strings.TrimSpace\<close> sees it on ASCII text.\<close>

definition isSpace :: "char \<Rightarrow> bool" where
  "isSpace c = (c \<in> set [CHR 0x09, CHR 0x0A, CHR 0x0B, CHR 0x0C, CHR 0x0D, CHR '' ''])"

definition TrimSpace :: "string \<Rightarrow> string" where
  "TrimSpace s = rev (dropWhile isSpace (rev (dropWhile isSpace s)))"

definition HasSuffix :: "string \<Rightarrow> string \<Rightarrow> bool" where
  "HasSuffix s suf = suffix suf s"

definition TrimSuffix :: "string \<Rightarrow> string \<Rightarrow> string" where
  "TrimSuffix s suf = (if HasSuffix s suf then take (length s - length suf) s else s)"

definition HasPrefix :: "string \<Rightarrow> string \<Rightarrow> bool" where
  "HasPrefix s pre = prefix pre s"

definition TrimPrefix :: "string \<Rightarrow> string \<Rightarrow> string" where
  "TrimPrefix s pre = (if HasPrefix s pre then drop (length pre) s else s)"

text \<open>
  \<open>strconv.Atoi\<close> on a 64-bit platform, as \<open>ParseInt(s, 10, 0)\<close> computes it (the fast
  path of \<open>Atoi\<close> for short strings returns the same). The value returned beside a
  range error is the nearest bound; beside a syntax error it is 0.
\<close>

datatype NumError = ErrSyntax | ErrRange

definition digitVal :: "char \<Rightarrow> nat option" where
  "digitVal c = map_of (zip ''0123456789'' [0, 1, 2, 3, 4, 5, 6, 7, 8, 9]) c"

definition maxUint64 :: nat where
  "maxUint64 = 18446744073709551615"

fun parseUintLoop :: "string \<Rightarrow> nat \<Rightarrow> nat \<times> NumError option" where
  "parseUintLoop [] n = (n, None)"
| "parseUintLoop (c # cs) n =
     (case digitVal c of
        None \<Rightarrow> (0, Some ErrSyntax)
      | Some d \<Rightarrow>
          if maxUint64 div 10 + 1 \<le> n then (maxUint64, Some ErrRange)
          else if maxUint64 < n * 10 + d then (maxUint64, Some ErrRange)
          else parseUintLoop cs (n * 10 + d))"

definition ParseUint :: "string \<Rightarrow> nat \<times> NumError option" where
  "ParseUint s = (if s = [] then (0, Some ErrSyntax) else parseUintLoop s 0)"

definition Atoi :: "string \<Rightarrow> int \<times> NumError option" where
  "Atoi s =
     (if s = [] then (0, Some ErrSyntax)
      else
        (let neg = (hd s = CHR ''-'');
             s1 = (if hd s = CHR ''+'' \<or> hd s = CHR ''-'' then tl s else s)
         in case ParseUint s1 of
              (un, Some ErrSyntax) \<Rightarrow> (0, Some ErrSyntax)
            | (un, _) \<Rightarrow>
                if \<not> neg \<and> 9223372036854775808 \<le> un then (9223372036854775807, Some ErrRange)
                else if neg \<and> 9223372036854775808 < un then (- 9223372036854775808, Some ErrRange)
                else (if neg then - int un else int un, None)))"

text \<open>Multiplication of two Go \<open>int\<close>s: the product wraps to 64 bits, two's complement.\<close>

definition mulInt :: "int \<Rightarrow> int \<Rightarrow> int" where
  "mulInt a b = (a * b + 9223372036854775808) mod 18446744073709551616 - 9223372036854775808"

section \<open>The abstract syntax (package ast)\<close>

text \<open>
  The enumerations that package ast shares by name with package ir carry the prefix
  \<open>ast_\<close>; a record field whose Go name is taken by a field of the IR carries the name
  of its struct. A song reference inside a condition is never nil in a parsed query, and
  is modelled so.
\<close>

datatype EraAlias = EraPrimal | EraEurope72 | EraWallOfSound | EraHiatus | EraBrent | EraVince
datatype ast_LogicOp = ast_OpAnd | ast_OpOr
datatype ast_SegueOp = ast_SegueOpSegue | ast_SegueOpBreak | ast_SegueOpTease
datatype ast_SetPosition = ast_SetAny | ast_Set1 | ast_Set2 | ast_Set3 | ast_Encore
datatype ast_PositionOp = ast_PosOpened | ast_PosClosed | ast_PosEquals
datatype ast_CompOp = ast_CompGT | ast_CompLT | ast_CompEQ | ast_CompGTE | ast_CompLTE | ast_CompNEQ
datatype ast_OutputFormat =
  ast_OutputDefault | ast_OutputJSON | ast_OutputCSV | ast_OutputSetlist | ast_OutputCalendar
  | ast_OutputTable

record Date =
  Year :: int
  Month :: int
  Day :: int
  Season :: string

record DateRange =
  RangeStart :: "Date option"
  RangeEnd :: "Date option"
  Era :: "EraAlias option"

record SongRef =
  Name :: string
  Negated :: bool

datatype Condition =
    SegueCondition "SongRef list" "ast_SegueOp list"
  | PositionCondition ast_SetPosition ast_PositionOp SongRef
  | PlayedCondition SongRef
  | LengthCondition "SongRef option" ast_CompOp string
  | GuestCondition string

datatype WithCondition =
    LyricsCondition "string list" ast_LogicOp
  | LengthWithCondition ast_CompOp string
  | GuestWithCondition string

record WhereClause =
  WhereConditions :: "Condition list"
  WhereOperators :: "ast_LogicOp list"

record WithClause =
  WithConditions :: "WithCondition list"

record OrderClause =
  OrderField :: string
  OrderDesc :: bool

record ShowQuery =
  ShowFrom :: "DateRange option"
  ShowWhere :: "WhereClause option"
  ShowOrderBy :: "OrderClause option"
  ShowLimit :: "int option"
  ShowOutputFmt :: ast_OutputFormat

record SongQuery =
  SongWith :: "WithClause option"
  SongWritten :: "DateRange option"
  SongOrderBy :: "OrderClause option"
  SongLimit :: "int option"

record PerformanceQuery =
  PerfSong :: SongRef
  PerfFrom :: "DateRange option"
  PerfWith :: "WithClause option"
  PerfOrderBy :: "OrderClause option"
  PerfLimit :: "int option"

record SetlistQuery =
  SetlistDate :: "Date option"

datatype Query =
    QShow ShowQuery
  | QSong SongQuery
  | QPerformance PerformanceQuery
  | QSetlist SetlistQuery

section \<open>The date expander (package expander)\<close>

text \<open>No function of the expander returns an error other than nil; the models return the value alone.\<close>

definition ExpandEra :: "EraAlias \<Rightarrow> ResolvedDateRange option" where
  "ExpandEra era =
     (case era of
        EraPrimal \<Rightarrow> Some \<lparr>Start = time_Date 1965 1 1 0 0 0, End = time_Date 1969 12 31 23 59 59\<rparr>
      | EraEurope72 \<Rightarrow> Some \<lparr>Start = time_Date 1972 3 1 0 0 0, End = time_Date 1972 5 31 23 59 59\<rparr>
      | EraWallOfSound \<Rightarrow> Some \<lparr>Start = time_Date 1974 1 1 0 0 0, End = time_Date 1974 12 31 23 59 59\<rparr>
      | EraHiatus \<Rightarrow> Some \<lparr>Start = time_Date 1975 1 1 0 0 0, End = time_Date 1975 12 31 23 59 59\<rparr>
      | EraBrent \<Rightarrow> Some \<lparr>Start = time_Date 1979 1 1 0 0 0, End = time_Date 1990 12 31 23 59 59\<rparr>
      | EraVince \<Rightarrow> Some \<lparr>Start = time_Date 1990 1 1 0 0 0, End = time_Date 1995 12 31 23 59 59\<rparr>)"

definition Expand :: "DateRange option \<Rightarrow> ResolvedDateRange option" where
  "Expand dro =
     (case dro of
        None \<Rightarrow> None
      | Some dr \<Rightarrow>
          (case Era dr of
             Some era \<Rightarrow> ExpandEra era
           | None \<Rightarrow>
               (case RangeStart dr of
                  None \<Rightarrow> None
                | Some st \<Rightarrow>
                    (let start = time_Date (Year st) 1 1 0 0 0;
                         end0 = time_Date (Year st) 12 31 23 59 59;
                         end1 = (case RangeEnd dr of
                                   None \<Rightarrow> end0
                                 | Some e \<Rightarrow> time_Date (Year e) 12 31 23 59 59)
                     in Some \<lparr>Start = start, End = end1\<rparr>))))"

definition ExpandDate :: "Date option \<Rightarrow> Time" where
  "ExpandDate dateo =
     (case dateo of
        None \<Rightarrow> zeroTime
      | Some date \<Rightarrow>
          (let year = (if Year date = 0 then 1970 else Year date);
               month = (if Month date = 0 then 1 else Month date);
               day = (if Day date = 0 then 1 else Day date)
           in time_Date year month day 0 0 0))"

section \<open>Song resolvers (package resolver)\<close>

text \<open>
  A Go \<open>error\<close> that reaches the planner: the resolver's \<open>ErrSongNotFound\<close>, the
  planner's \<open>QueryError\<close> of kind song-not-found (message, suggestions, hint), or an
  error of the data source, passed on unchanged.
\<close>

datatype go_error =
    ErrSongNotFound string
  | QueryError string "string list" string
  | DataError string

text \<open>The interface \<open>SongResolver\<close>, the two methods of it the planner calls.\<close>

record SongResolver =
  Resolve :: "string \<Rightarrow> go_error + int"
  Suggest :: "string \<Rightarrow> string list"

text \<open>
  \<open>StaticResolver\<close>. The Go map \<open>ByName\<close> is an association list with distinct keys;
  the order of the list stands for the order in which \<open>range\<close> happens to visit the map.
  \<open>strings.ToLower\<close> is the parameter \<open>toLower\<close>, so that what is proved of the
  resolver does not rest on \<open>ToLower\<close> above, which is right on ASCII text only.
\<close>

fun staticResolveFold :: "(string \<Rightarrow> string) \<Rightarrow> (string \<times> int) list \<Rightarrow> string \<Rightarrow> int option" where
  "staticResolveFold toLower [] lower = None"
| "staticResolveFold toLower ((n, i) # rest) lower =
     (if toLower n = lower then Some i else staticResolveFold toLower rest lower)"

definition StaticResolver_Resolve ::
    "(string \<Rightarrow> string) \<Rightarrow> (string \<times> int) list \<Rightarrow> string \<Rightarrow> go_error + int" where
  "StaticResolver_Resolve toLower byName name =
     (case map_of byName name of
        Some i \<Rightarrow> Inr i
      | None \<Rightarrow>
          (case staticResolveFold toLower byName (toLower name) of
             Some i \<Rightarrow> Inr i
           | None \<Rightarrow> Inl (ErrSongNotFound name)))"




section \<open>The planner (package planner)\<close>

definition astSegueOpToIR :: "ast_SegueOp \<Rightarrow> SegueOp" where
  "astSegueOpToIR o' = (case o' of ast_SegueOpSegue \<Rightarrow> SegueOpSegue
      | ast_SegueOpBreak \<Rightarrow> SegueOpBreak | ast_SegueOpTease \<Rightarrow> SegueOpTease)"

definition astSetPosToIR :: "ast_SetPosition \<Rightarrow> SetPosition" where
  "astSetPosToIR s = (case s of ast_Set1 \<Rightarrow> Set1 | ast_Set2 \<Rightarrow> Set2 | ast_Set3 \<Rightarrow> Set3
      | ast_Encore \<Rightarrow> Encore | ast_SetAny \<Rightarrow> SetAny)"

definition astPosOpToIR :: "ast_PositionOp \<Rightarrow> PositionOp" where
  "astPosOpToIR o' = (case o' of ast_PosOpened \<Rightarrow> PosOpened | ast_PosClosed \<Rightarrow> PosClosed
      | ast_PosEquals \<Rightarrow> PosEquals)"

definition astCompOpToIR :: "ast_CompOp \<Rightarrow> CompOp" where
  "astCompOpToIR o' = (case o' of ast_CompGT \<Rightarrow> CompGT | ast_CompLT \<Rightarrow> CompLT
      | ast_CompEQ \<Rightarrow> CompEQ | ast_CompGTE \<Rightarrow> CompGTE | ast_CompLTE \<Rightarrow> CompLTE
      | ast_CompNEQ \<Rightarrow> CompNEQ)"

definition astLogicOpToIR :: "ast_LogicOp \<Rightarrow> LogicOp" where
  "astLogicOpToIR o' = (if o' = ast_OpOr then OpOr else OpAnd)"

definition astOutputToIR :: "ast_OutputFormat \<Rightarrow> OutputFormat" where
  "astOutputToIR o' = (case o' of ast_OutputJSON \<Rightarrow> OutputJSON | ast_OutputCSV \<Rightarrow> OutputCSV
      | ast_OutputSetlist \<Rightarrow> OutputSetlist | ast_OutputCalendar \<Rightarrow> OutputCalendar
      | ast_OutputTable \<Rightarrow> OutputTable | ast_OutputDefault \<Rightarrow> OutputDefault)"

text \<open>\<open>parseDuration\<close>: the seconds and the error it returns.\<close>

definition parseDuration :: "string \<Rightarrow> int \<times> NumError option" where
  "parseDuration s0 =
     (let s = TrimSpace (ToLower s0) in
      if s = [] then (0, None)
      else if HasSuffix s ''min'' then
        (case Atoi (TrimSpace (TrimSuffix s ''min'')) of
           (n, Some e) \<Rightarrow> (0, Some e)
         | (n, None) \<Rightarrow> (mulInt n 60, None))
      else if HasSuffix s ''sec'' then
        (case Atoi (TrimSpace (TrimSuffix s ''sec'')) of
           (n, Some e) \<Rightarrow> (0, Some e)
         | (n, None) \<Rightarrow> (mulInt n 1, None))
      else (0, None))"

definition songNotFoundHint :: string where
  "songNotFoundHint = ''The database may be empty or this song was not imported.''"

text \<open>
  \<open>wrapSongNotFound\<close>. The hint is the fixed text of the source, abbreviated in
  \<open>songNotFoundHint\<close>; an error that is not an \<open>ErrSongNotFound\<close> passes unchanged.
\<close>

definition wrapSongNotFound :: "SongResolver \<Rightarrow> go_error \<Rightarrow> go_error" where
  "wrapSongNotFound r err =
     (case err of
        ErrSongNotFound name \<Rightarrow>
          (let suggestions = Suggest r name
           in QueryError name suggestions (if length suggestions = 0 then songNotFoundHint else []))
      | _ \<Rightarrow> err)"

text \<open>The loop of \<open>segueToIR\<close> over the songs of the chain.\<close>

fun segueResolve :: "SongResolver \<Rightarrow> SongRef list \<Rightarrow> int list \<Rightarrow> go_error + int list" where
  "segueResolve r [] ids = Inr ids"
| "segueResolve r (ref # refs) ids =
     (case Resolve r (Name ref) of
        Inl err \<Rightarrow> Inl (wrapSongNotFound r err)
      | Inr i \<Rightarrow> segueResolve r refs (ids @ [i]))"

definition segueToIR :: "SongResolver \<Rightarrow> SongRef list \<Rightarrow> ast_SegueOp list \<Rightarrow> go_error + SegueChainIR" where
  "segueToIR r songs ops =
     (case segueResolve r songs [] of
        Inl err \<Rightarrow> Inl err
      | Inr ids \<Rightarrow> Inr \<lparr>SongIDs = ids, Operators = map astSegueOpToIR ops\<rparr>)"

text \<open>\<open>conditionToIR\<close>; the result \<open>nil, nil\<close> is \<open>Inr None\<close>.\<close>

fun conditionToIR :: "SongResolver \<Rightarrow> Condition \<Rightarrow> go_error + ConditionIR option" where
  "conditionToIR r (SegueCondition songs ops) = Inr None"
| "conditionToIR r (PositionCondition st opr song) =
     (case Resolve r (Name song) of
        Inl err \<Rightarrow> Inl (wrapSongNotFound r err)
      | Inr i \<Rightarrow> Inr (Some (PositionConditionIR (astSetPosToIR st) (astPosOpToIR opr) i)))"
| "conditionToIR r (PlayedCondition song) =
     (case Resolve r (Name song) of
        Inl err \<Rightarrow> Inl (wrapSongNotFound r err)
      | Inr i \<Rightarrow> Inr (Some (PlayedConditionIR i)))"
| "conditionToIR r (LengthCondition songo opr dur) =
     (case (case songo of
              None \<Rightarrow> Inr None
            | Some song \<Rightarrow>
                (case Resolve r (Name song) of
                   Inl err \<Rightarrow> Inl (wrapSongNotFound r err)
                 | Inr i \<Rightarrow> Inr (Some i))) of
        Inl err \<Rightarrow> Inl err
      | Inr songID \<Rightarrow>
          Inr (Some (LengthConditionIR songID (astCompOpToIR opr) (fst (parseDuration dur)))))"
| "conditionToIR r (GuestCondition name) = Inr (Some (GuestConditionIR name))"

definition withConditionToIR :: "WithCondition \<Rightarrow> ConditionIR" where
  "withConditionToIR c =
     (case c of
        LyricsCondition ws opr \<Rightarrow> LyricsConditionIR ws (astLogicOpToIR opr)
      | LengthWithCondition opr dur \<Rightarrow>
          LengthConditionIR None (astCompOpToIR opr) (fst (parseDuration dur))
      | GuestWithCondition name \<Rightarrow> GuestConditionIR name)"

text \<open>
  The loop of \<open>planShow\<close> over \<open>s.Where.Conditions\<close>: \<open>i\<close> is the index of the
  condition at the head of the list, \<open>out\<close> the IR under construction.
\<close>

fun planShowConds :: "SongResolver \<Rightarrow> Condition list \<Rightarrow> nat \<Rightarrow> QueryIR \<Rightarrow> go_error + QueryIR" where
  "planShowConds r [] i out = Inr out"
| "planShowConds r (c # cs) i out =
     (case (case c of
              SegueCondition songs ops \<Rightarrow>
                if i = 0 \<and> SegueChain out = None then Some (songs, ops) else None
            | _ \<Rightarrow> None) of
        Some (songs, ops) \<Rightarrow>
          (case segueToIR r songs ops of
             Inl err \<Rightarrow> Inl (wrapSongNotFound r err)
           | Inr chain \<Rightarrow> planShowConds r cs (i + 1) (out\<lparr>SegueChain := Some chain\<rparr>))
      | None \<Rightarrow>
          (case conditionToIR r c of
             Inl err \<Rightarrow> Inl (wrapSongNotFound r err)
           | Inr None \<Rightarrow> planShowConds r cs (i + 1) out
           | Inr (Some cond) \<Rightarrow>
               planShowConds r cs (i + 1) (out\<lparr>Conditions := Conditions out @ [cond]\<rparr>)))"

definition orderClauseToIR :: "OrderClause option \<Rightarrow> OrderByIR option" where
  "orderClauseToIR oc = map_option (\<lambda>c. \<lparr>Field = OrderField c, Desc = OrderDesc c\<rparr>) oc"

definition planShow :: "SongResolver \<Rightarrow> ShowQuery \<Rightarrow> go_error + QueryIR" where
  "planShow r s =
     (let out0 = (emptyIR QueryTypeShows)\<lparr>DateRange := Expand (ShowFrom s)\<rparr> in
      case (case ShowWhere s of
              None \<Rightarrow> Inr out0
            | Some wc \<Rightarrow> planShowConds r (WhereConditions wc) 0 out0) of
        Inl err \<Rightarrow> Inl err
      | Inr out1 \<Rightarrow>
          Inr (out1\<lparr>OrderBy := orderClauseToIR (ShowOrderBy s), Limit := ShowLimit s,
                     OutputFmt := astOutputToIR (ShowOutputFmt s)\<rparr>))"

definition withClauseToIR :: "WithClause option \<Rightarrow> ConditionIR list" where
  "withClauseToIR w = (case w of None \<Rightarrow> [] | Some wc \<Rightarrow> map withConditionToIR (WithConditions wc))"

definition planSong :: "SongResolver \<Rightarrow> SongQuery \<Rightarrow> go_error + QueryIR" where
  "planSong r s =
     Inr ((emptyIR QueryTypeSongs)\<lparr>DateRange := Expand (SongWritten s),
            Conditions := withClauseToIR (SongWith s),
            OrderBy := orderClauseToIR (SongOrderBy s), Limit := SongLimit s\<rparr>)"

definition planPerformance :: "SongResolver \<Rightarrow> PerformanceQuery \<Rightarrow> go_error + QueryIR" where
  "planPerformance r perf =
     (case Resolve r (Name (PerfSong perf)) of
        Inl err \<Rightarrow> Inl (wrapSongNotFound r err)
      | Inr i \<Rightarrow>
          Inr ((emptyIR QueryTypePerformances)\<lparr>SongID := Some i,
                 DateRange := Expand (PerfFrom perf),
                 Conditions := withClauseToIR (PerfWith perf),
                 OrderBy := orderClauseToIR (PerfOrderBy perf), Limit := PerfLimit perf\<rparr>))"

definition planSetlist :: "SetlistQuery \<Rightarrow> go_error + QueryIR" where
  "planSetlist sl =
     (case SetlistDate sl of
        None \<Rightarrow> Inr (emptyIR QueryTypeSetlist)
      | Some d \<Rightarrow> Inr ((emptyIR QueryTypeSetlist)\<lparr>SingleDate := Some (ExpandDate (Some d))\<rparr>))"

definition Plan :: "SongResolver \<Rightarrow> Query \<Rightarrow> go_error + QueryIR" where
  "Plan r q =
     (case q of
        QShow x \<Rightarrow> planShow r x
      | QSong x \<Rightarrow> planSong r x
      | QPerformance x \<Rightarrow> planPerformance r x
      | QSetlist x \<Rightarrow> planSetlist x)"

section \<open>Row mapping (package executor)\<close>

text \<open>
  A cell of a result row is a Go \<open>interface{}\<close>; the constructors are the dynamic types
  a driver or a test double can put there. \<open>float64\<close> is the type parameter \<open>'f\<close>:
  its operations, and \<open>time.Parse("2006-01-02", s)\<close>, belong to the Go runtime and are
  taken as parameters, collected in \<open>runtime\<close>. \<open>timeParse\<close> answers \<open>Some t\<close>
  where \<open>time.Parse\<close> succeeds and \<open>None\<close> where it fails, in which case Go returns
  the zero time beside the error. An \<open>int64\<close> converts to \<open>int\<close> unchanged.
\<close>

datatype 'f cell =
    CInt int
  | CInt64 int
  | CFloat64 'f
  | CString string
  | CBytes string
  | CBool bool
  | CTime Time
  | CNil

record 'f runtime =
  floatToInt :: "'f \<Rightarrow> int"
  intToFloat :: "int \<Rightarrow> 'f"
  floatZero :: 'f
  timeParse :: "string \<Rightarrow> Time option"

record 'f ResultSet =
  Columns :: "string list"
  Rows :: "'f cell list list"

record 'f Show =
  Show_ID :: int
  Show_Date :: Time
  Show_VenueID :: int
  Show_Venue :: string
  Show_City :: string
  Show_State :: string
  Show_Notes :: string
  Show_Rating :: 'f




definition intVal :: "'f runtime \<Rightarrow> 'f cell \<Rightarrow> int" where
  "intVal rt v = (case v of CInt x \<Rightarrow> x | CInt64 x \<Rightarrow> x | CFloat64 x \<Rightarrow> floatToInt rt x | _ \<Rightarrow> 0)"

definition floatVal :: "'f runtime \<Rightarrow> 'f cell \<Rightarrow> 'f" where
  "floatVal rt v =
     (case v of CFloat64 x \<Rightarrow> x | CInt x \<Rightarrow> intToFloat rt x | CInt64 x \<Rightarrow> intToFloat rt x
      | _ \<Rightarrow> floatZero rt)"

definition strVal :: "'f cell \<Rightarrow> string" where
  "strVal v = (case v of CString s \<Rightarrow> s | _ \<Rightarrow> [])"

definition timeVal :: "'f runtime \<Rightarrow> 'f cell \<Rightarrow> Time" where
  "timeVal rt v =
     (case v of
        CString s \<Rightarrow> (case timeParse rt s of Some t \<Rightarrow> t | None \<Rightarrow> zeroTime)
      | _ \<Rightarrow> zeroTime)"

text \<open>
  \<open>row[k]\<close>: an index outside the row panics in Go. \<open>cellAt\<close> makes the check
  explicit, and a function that reads a row answers \<open>None\<close> for the panic.
\<close>

definition cellAt :: "'a list \<Rightarrow> nat \<Rightarrow> 'a option" where
  "cellAt row k = (if k < length row then Some (row ! k) else None)"

text \<open>The bodies of the three loops, after the test of the row's length.\<close>

definition rowToShow :: "'f runtime \<Rightarrow> 'f cell list \<Rightarrow> 'f Show option" where
  "rowToShow rt row =
     (case cellAt row 0 of None \<Rightarrow> None | Some c0 \<Rightarrow>
      case cellAt row 2 of None \<Rightarrow> None | Some c2 \<Rightarrow>
      case cellAt row 3 of None \<Rightarrow> None | Some c3 \<Rightarrow>
      case cellAt row 4 of None \<Rightarrow> None | Some c4 \<Rightarrow>
      case cellAt row 5 of None \<Rightarrow> None | Some c5 \<Rightarrow>
      case cellAt row 6 of None \<Rightarrow> None | Some c6 \<Rightarrow>
      case cellAt row 7 of None \<Rightarrow> None | Some c7 \<Rightarrow>
      case cellAt row 1 of None \<Rightarrow> None | Some c1 \<Rightarrow>
        Some \<lparr>Show_ID = intVal rt c0, Show_Date = timeVal rt c1, Show_VenueID = intVal rt c2,
              Show_Venue = strVal c3, Show_City = strVal c4, Show_State = strVal c5,
              Show_Notes = strVal c6, Show_Rating = floatVal rt c7\<rparr>)"








section \<open>Evaluation rules\<close>

lemmas sql_literals =
  sqlShowsSelect_def
  sqlSegueSelect_def
  sqlPosOpened_def
  sqlPosClosed_def
  sqlPosEquals_def
  sqlPlayed_def
  sqlGuest_def
  sqlSeguePosOpened_def
  sqlSeguePosClosed_def
  sqlSeguePosEquals_def
  sqlSeguePlayed_def
  sqlSegueGuest_def
  sqlSegueShowsJoin_def
  sqlDateRange_def
  sqlLyricsExists_def
  sqlSongsSelect_def
  sqlSongsDateRange_def
  sqlPerformancesSelect_def
  sqlPerformancesDateRange_def
  sqlSetlist_def

lemmas str_defs =
  ToLower_def ToUpper_def lowerChar_def upperChar_def upperLetters_def lowerLetters_def

lemmas qt_defs =
  QueryTypeShows_def QueryTypeSongs_def QueryTypePerformances_def QueryTypeSetlist_def

lemmas itoa_eval = itoa_def itoaNat.simps digitChar_def

section \<open>Generation errors\<close>

text \<open>
  Without a chain of two songs or more, \<open>genShows\<close> takes its own branch: the result
  is the plain shows query, which does not read the chain.
\<close>

lemma genShows_plain_total:
  assumes "\<not> (case SegueChain q of None \<Rightarrow> False | Some chain \<Rightarrow> 2 \<le> length (SongIDs chain))"
  shows "\<exists>sq. genShows q = Inr sq"
  using assms by (simp add: genShows_def Let_def split: prod.splits option.splits)

lemma genShows_ignores_short_chain:
  assumes "SegueChain q = Some c" and "length (SongIDs c) < 2"
  shows "genShows q = genShows (q\<lparr>SegueChain := None\<rparr>)"
  using assms by (simp add: genShows_def whereShows_def orderBy_def limit_def)

text \<open>
  C7 (as amended). \<open>BuildSegueShowsSQL\<close> answers a missing chain and a chain of fewer
  than two songs with the generation error "segue chain requires at least 2 songs".
  \<open>Generate\<close> never reaches it for such a shows IR: it succeeds with the query it emits
  for the same IR without the chain. A setlist IR without \<open>single_date\<close> and a query
  type outside the four known ones make \<open>Generate\<close> return a generation error.
\<close>

theorem C7_generation_errors:
  "(SegueChain q = None \<or> (\<exists>c. SegueChain q = Some c \<and> length (SongIDs c) < 2)
      \<longrightarrow> BuildSegueShowsSQL q = Inl (GenerationError ''segue chain requires at least 2 songs''))
   \<and> (Type q = QueryTypeShows \<and> (\<exists>c. SegueChain q = Some c \<and> length (SongIDs c) < 2)
      \<longrightarrow> (\<exists>sq. Generate q = Inr sq \<and> Generate (q\<lparr>SegueChain := None\<rparr>) = Inr sq))
   \<and> (Type q = QueryTypeSetlist \<and> SingleDate q = None
      \<longrightarrow> Generate q = Inl (GenerationError ''setlist query requires a date''))
   \<and> (Type q \<notin> {QueryTypeShows, QueryTypeSongs, QueryTypePerformances, QueryTypeSetlist}
      \<longrightarrow> Generate q = Inl (GenerationError (''unknown query type: '' @ itoa (Type q))))"
proof (intro conjI impI)
  assume "SegueChain q = None \<or> (\<exists>c. SegueChain q = Some c \<and> length (SongIDs c) < 2)"
  then show "BuildSegueShowsSQL q = Inl (GenerationError ''segue chain requires at least 2 songs'')"
    by (auto simp: BuildSegueShowsSQL_def)
next
  assume a: "Type q = QueryTypeShows \<and> (\<exists>c. SegueChain q = Some c \<and> length (SongIDs c) < 2)"
  then obtain c where c: "SegueChain q = Some c" "length (SongIDs c) < 2" by blast
  from c obtain sq where sq: "genShows q = Inr sq"
    using genShows_plain_total [of q] by auto
  moreover have "genShows (q\<lparr>SegueChain := None\<rparr>) = Inr sq"
    using genShows_ignores_short_chain [OF c] sq by simp
  ultimately show "\<exists>sq. Generate q = Inr sq \<and> Generate (q\<lparr>SegueChain := None\<rparr>) = Inr sq"
    using a by (simp add: Generate_def)
next
  assume "Type q = QueryTypeSetlist \<and> SingleDate q = None"
  then show "Generate q = Inl (GenerationError ''setlist query requires a date'')"
    by (simp add: Generate_def genSetlist_def qt_defs)
next
  assume "Type q \<notin> {QueryTypeShows, QueryTypeSongs, QueryTypePerformances, QueryTypeSetlist}"
  then show "Generate q = Inl (GenerationError (''unknown query type: '' @ itoa (Type q)))"
    by (simp add: Generate_def)
qed

theorem C7_generation_errors_witness:
  "BuildSegueShowsSQL ((emptyIR QueryTypeShows)\<lparr>SegueChain := Some \<lparr>SongIDs = [1], Operators = []\<rparr>\<rparr>)
     = Inl (GenerationError ''segue chain requires at least 2 songs'')
   \<and> (\<exists>sq. Generate ((emptyIR QueryTypeShows)\<lparr>SegueChain := Some \<lparr>SongIDs = [1], Operators = []\<rparr>\<rparr>) = Inr sq
          \<and> Generate (emptyIR QueryTypeShows) = Inr sq)
   \<and> Generate (emptyIR QueryTypeSetlist) = Inl (GenerationError ''setlist query requires a date'')
   \<and> Generate (emptyIR 4) = Inl (GenerationError ''unknown query type: 4'')"
  using C7_generation_errors [of "(emptyIR QueryTypeShows)\<lparr>SegueChain := Some \<lparr>SongIDs = [1], Operators = []\<rparr>\<rparr>"]
        C7_generation_errors [of "emptyIR QueryTypeSetlist"]
        C7_generation_errors [of "emptyIR 4"]
  by (simp add: emptyIR_def qt_defs itoa_eval)

text \<open>
  C7 as stated fails: a shows IR whose chain has one song is not an error of
  \<open>Generate\<close>; the plain shows query comes back.
\<close>

theorem C7_short_chain_counterexample:
  "Generate ((emptyIR QueryTypeShows)\<lparr>SegueChain := Some \<lparr>SongIDs = [1], Operators = []\<rparr>\<rparr>)
     = Inr \<lparr>SQL = ''SELECT s.id, s.date, s.venue_id, v.name AS venue, v.city, v.state, s.notes, s.rating FROM shows s LEFT JOIN venues v ON s.venue_id = v.id'',
            Args = []\<rparr>"
  by (simp add: Generate_def genShows_def emptyIR_def QueryTypeShows_def whereShows_def orderBy_def
        limit_def sqlShowsSelect_def)

section \<open>Date expansion\<close>

lemma daysBeforeYear_mono:
  assumes "y \<le> y'"
  shows "daysBeforeYear y \<le> daysBeforeYear y'"
proof -
  have a4: "(y - 1) div 4 \<le> (y' - 1) div 4" using assms by (intro zdiv_mono1) auto
  have a400: "(y - 1) div 400 \<le> (y' - 1) div 400" using assms by (intro zdiv_mono1) auto
  define p where "p = (y' - 1) div 100"
  define q where "q = (y - 1) div 100"
  have l: "y - 1 < 100 * q + 100"
    unfolding q_def using pos_mod_bound [of 100 "y - 1"] mult_div_mod_eq [of 100 "y - 1"] by linarith
  have u: "100 * p \<le> y' - 1"
    unfolding p_def using pos_mod_sign [of 100 "y' - 1"] mult_div_mod_eq [of 100 "y' - 1"] by linarith
  have "p - q \<le> 365 * y' - 365 * y"
  proof (cases "y = y'")
    case True
    have "100 * p - 100 * q < 100" using l u unfolding True by linarith
    then have "p - q < 1" by linarith
    then show ?thesis using True by simp
  next
    case False
    then have "y < y'" using assms by simp
    then have "100 * p - 100 * q \<le> 100 * y' - 100 * y" using l u by linarith
    then have "p - q \<le> y' - y" by linarith
    then show ?thesis using assms by linarith
  qed
  then have "(y' - 1) div 100 - (y - 1) div 100 \<le> 365 * y' - 365 * y"
    by (simp add: p_def q_def)
  then show ?thesis unfolding daysBeforeYear_def right_diff_distrib using a4 a400 by linarith
qed

lemma year_start_le_year_end:
  assumes "y \<le> y'"
  shows "time_Date y 1 1 0 0 0 \<le> time_Date y' 12 31 23 59 59"
proof -
  have "daysBeforeYear y \<le> daysBeforeYear y'" using assms by (rule daysBeforeYear_mono)
  then show ?thesis by (simp add: time_Date_def daysBefore_def)
qed

lemma ExpandEra_ordered: "ExpandEra era = Some r \<Longrightarrow> Start r \<le> End r"
  by (cases era) (auto simp: ExpandEra_def time_Date_def daysBefore_def daysBeforeYear_def isLeap_def)

text \<open>
  C8 (as amended). The range that \<open>Expand\<close> returns for an era alias, and for a bare
  year or a year range whose years lie in 0..1000000000 and whose first year is not
  after its second, has \<open>start \<le> end\<close>. \<open>Expand\<close> does not reorder the two years of
  a range, and beyond that range of years Go's 64-bit seconds wrap, so neither case is
  promised.
\<close>

theorem C8_expand_ordered:
  assumes "Expand (Some dr) = Some r"
    and "Era dr = None \<longrightarrow>
           (\<forall>st. RangeStart dr = Some st \<longrightarrow>
              timeYearOK (Year st)
              \<and> (\<forall>e. RangeEnd dr = Some e \<longrightarrow> timeYearOK (Year e) \<and> Year st \<le> Year e))"
  shows "Start r \<le> End r"
proof (cases "Era dr")
  case (Some era)
  then show ?thesis using assms(1) ExpandEra_ordered by (simp add: Expand_def)
next
  case None
  note era = this
  show ?thesis
  proof (cases "RangeStart dr")
    case None
    then show ?thesis using assms(1) era by (simp add: Expand_def)
  next
    case (Some st)
    note st = this
    show ?thesis
    proof (cases "RangeEnd dr")
      case None
      then show ?thesis
        using assms(1) era st year_start_le_year_end [of "Year st" "Year st"]
        by (auto simp: Expand_def Let_def)
    next
      case (Some e)
      then have "Year st \<le> Year e" using assms(2) era st by blast
      then show ?thesis
        using assms(1) era st Some year_start_le_year_end [of "Year st" "Year e"]
        by (auto simp: Expand_def Let_def)
    qed
  qed
qed

theorem C8_expand_ordered_witness:
  "Expand (Some \<lparr>RangeStart = Some \<lparr>Year = 1977, Month = 0, Day = 0, Season = []\<rparr>,
                  RangeEnd = Some \<lparr>Year = 1980, Month = 0, Day = 0, Season = []\<rparr>,
                  Era = None\<rparr>)
     = Some \<lparr>Start = 220924800, End = 347155199\<rparr>
   \<and> timeYearOK 1977 \<and> timeYearOK 1980
   \<and> Start \<lparr>Start = 220924800, End = 347155199\<rparr> \<le> End \<lparr>Start = 220924800, End = 347155199\<rparr>"
  using C8_expand_ordered
    [of "\<lparr>RangeStart = Some \<lparr>Year = 1977, Month = 0, Day = 0, Season = []\<rparr>,
          RangeEnd = Some \<lparr>Year = 1980, Month = 0, Day = 0, Season = []\<rparr>, Era = None\<rparr>"
        "\<lparr>Start = 220924800, End = 347155199\<rparr>"]
  by (simp add: Expand_def time_Date_def daysBefore_def daysBeforeYear_def isLeap_def timeYearOK_def)

text \<open>
  C8 as stated fails on the reversed range 1980-1977: its start is 1980-01-01T00:00:00Z
  and its end 1977-12-31T23:59:59Z.
\<close>

theorem C8_reversed_range_counterexample:
  "(case Expand (Some \<lparr>RangeStart = Some \<lparr>Year = 1980, Month = 0, Day = 0, Season = []\<rparr>,
                        RangeEnd = Some \<lparr>Year = 1977, Month = 0, Day = 0, Season = []\<rparr>,
                        Era = None\<rparr>) of
      None \<Rightarrow> False
    | Some r \<Rightarrow> Start r = 315532800 \<and> End r = 252460799 \<and> End r < Start r)"
  by (simp add: Expand_def time_Date_def daysBefore_def daysBeforeYear_def isLeap_def)

section \<open>The planner\<close>

lemmas strconv_eval = TrimSpace_def isSpace_def HasSuffix_def TrimSuffix_def suffix_to_prefix
  Atoi_def ParseUint_def digitVal_def maxUint64_def mulInt_def

text \<open>
  C4, at inputs the lexer hands to the planner as DURATION literals: of the eight unit
  words only \<open>min\<close> and \<open>sec\<close> are suffixes \<open>parseDuration\<close> looks for; each of the
  other six gives zero seconds and no error, where the claim says 1200 and 20.
\<close>

theorem C4_unit_words_other_than_min_sec_yield_zero:
  "parseDuration ''20mins'' = (0, None) \<and> parseDuration ''20minute'' = (0, None)
   \<and> parseDuration ''20minutes'' = (0, None) \<and> parseDuration ''20secs'' = (0, None)
   \<and> parseDuration ''20second'' = (0, None) \<and> parseDuration ''20seconds'' = (0, None)
   \<and> parseDuration ''20min'' = (1200, None) \<and> parseDuration ''20sec'' = (20, None)"
  by (simp add: parseDuration_def str_defs strconv_eval)

text \<open>From the second condition on, the index of the loop decides nothing.\<close>

lemma planShowConds_index:
  "0 < i \<Longrightarrow> 0 < j \<Longrightarrow> planShowConds r cs i out = planShowConds r cs j out"
proof (induction cs arbitrary: i j out)
  case Nil
  then show ?case by simp
next
  case (Cons c cs)
  have step: "\<And>o'. planShowConds r cs (Suc i) o' = planShowConds r cs (Suc j) o'"
    by (rule Cons.IH) simp_all
  show ?case using Cons.prems
    by (cases c) (simp_all add: step split: sum.splits option.splits)
qed

lemma planShowConds_later_segue:
  "0 < i + length xs \<Longrightarrow>
   planShowConds r (xs @ SegueCondition songs ops # ys) i out = planShowConds r (xs @ ys) i out"
proof (induction xs arbitrary: i out)
  case Nil
  then have "0 < i" by simp
  then show ?case using planShowConds_index [of "Suc i" i r ys out] by simp
next
  case (Cons x xs)
  have step: "\<And>k o'. planShowConds r (xs @ SegueCondition songs ops # ys) (Suc k) o'
                 = planShowConds r (xs @ ys) (Suc k) o'"
    by (rule Cons.IH) simp
  show ?case
    by (cases x) (simp_all add: step split: sum.splits option.splits)
qed

text \<open>
  C9. A segue condition that is not the first condition of the WHERE clause leaves no
  trace in the plan: planning the query gives the result (the IR, or the error of
  another condition) of planning the query without it, whatever the resolver would
  answer for its song names.
\<close>

theorem C9_later_segue_condition_dropped:
  assumes "xs \<noteq> []"
  shows "planShow r (s\<lparr>ShowWhere := Some \<lparr>WhereConditions = xs @ SegueCondition songs ops # ys,
                                          WhereOperators = lops\<rparr>\<rparr>)
       = planShow r (s\<lparr>ShowWhere := Some \<lparr>WhereConditions = xs @ ys, WhereOperators = lops'\<rparr>\<rparr>)"
proof -
  have "0 < 0 + length xs" using assms by simp
  then have "\<And>o'. planShowConds r (xs @ SegueCondition songs ops # ys) 0 o'
                 = planShowConds r (xs @ ys) 0 o'"
    by (rule planShowConds_later_segue)
  then show ?thesis by (simp add: planShow_def split: sum.splits)
qed

theorem C9_later_segue_condition_dropped_witness:
  "[PlayedCondition \<lparr>Name = ''Dark Star'', Negated = False\<rparr>] \<noteq> []
   \<and> planShow \<lparr>Resolve = StaticResolver_Resolve ToLower [(''Dark Star'', 10)], Suggest = (\<lambda>n. [])\<rparr>
        \<lparr>ShowFrom = None,
         ShowWhere = Some \<lparr>WhereConditions =
             [PlayedCondition \<lparr>Name = ''Dark Star'', Negated = False\<rparr>,
              SegueCondition [\<lparr>Name = ''No Such Song'', Negated = False\<rparr>,
                              \<lparr>Name = ''Nor This One'', Negated = False\<rparr>] [ast_SegueOpSegue]],
           WhereOperators = [ast_OpAnd]\<rparr>,
         ShowOrderBy = None, ShowLimit = None, ShowOutputFmt = ast_OutputDefault\<rparr>
     = Inr ((emptyIR QueryTypeShows)\<lparr>Conditions := [PlayedConditionIR 10]\<rparr>)"
  using C9_later_segue_condition_dropped
    [where xs = "[PlayedCondition \<lparr>Name = ''Dark Star'', Negated = False\<rparr>]"
       and r = "\<lparr>Resolve = StaticResolver_Resolve ToLower [(''Dark Star'', 10)], Suggest = (\<lambda>n. [])\<rparr>"
       and s = "\<lparr>ShowFrom = None, ShowWhere = None, ShowOrderBy = None, ShowLimit = None,
          ShowOutputFmt = ast_OutputDefault\<rparr>"
       and songs = "[\<lparr>Name = ''No Such Song'', Negated = False\<rparr>, \<lparr>Name = ''Nor This One'', Negated = False\<rparr>]"
       and ops = "[ast_SegueOpSegue]" and ys = "[]" and lops = "[ast_OpAnd]" and lops' = "[]"]
  by (simp add: planShow_def emptyIR_def StaticResolver_Resolve_def Expand_def orderClauseToIR_def
        astOutputToIR_def)

section \<open>Song resolvers\<close>






section \<open>Row mapping\<close>









lemma rowToShow_cells:
  assumes "8 \<le> length row"
  shows "rowToShow rt row =
     Some \<lparr>Show_ID = intVal rt (row ! 0), Show_Date = timeVal rt (row ! 1),
           Show_VenueID = intVal rt (row ! 2), Show_Venue = strVal (row ! 3),
           Show_City = strVal (row ! 4), Show_State = strVal (row ! 5),
           Show_Notes = strVal (row ! 6), Show_Rating = floatVal rt (row ! 7)\<rparr>"
  using assms by (auto simp: rowToShow_def cellAt_def)


section \<open>The segue query\<close>

text \<open>The four loops of \<open>BuildSegueShowsSQL\<close> in closed form.\<close>

lemma padOps_eq: "padOps ops n = ops @ replicate (n - 1 - length ops) SegueOpSegue"
proof (induction ops n rule: padOps.induct)
  case (1 ops n)
  show ?case
  proof (cases "length ops < n - 1")
    case True
    then have "n - 1 - length ops = Suc (n - 1 - length (ops @ [SegueOpSegue]))" by simp
    then show ?thesis using True "1.IH" padOps.simps [of ops n]
      by (simp add: replicate_app_Cons_same)
  next
    case False
    then show ?thesis using padOps.simps [of ops n] by simp
  qed
qed

lemma performanceJoins_eq:
  "0 < i \<Longrightarrow> performanceJoins i n b = b @ concat (map adjacencyJoin [i..<n])"
proof (induction i n b rule: performanceJoins.induct)
  case (1 i n b)
  show ?case
  proof (cases "i < n")
    case True
    then have "[i..<n] = i # [Suc i..<n]" by (simp add: upt_conv_Cons)
    then show ?thesis using True "1.prems" "1.IH"(2) performanceJoins.simps [of i n b]
      by (simp add: Let_def adjacencyJoin_def)
  next
    case False
    then show ?thesis using performanceJoins.simps [of i n b] by simp
  qed
qed

lemma performanceJoins_0:
  "0 < n \<Longrightarrow> performanceJoins 0 n b = b @ ''performances p1'' @ concat (map adjacencyJoin [1..<n])"
  using performanceJoins.simps [of 0 n b] performanceJoins_eq [of 1 n "b @ ''performances p1''"]
  by (simp add: Let_def itoa_eval)

lemma songJoins_eq:
  "songJoins ids i n (b, args) =
     (b @ concat (map songsJoin [i..<n]), args @ map (\<lambda>k. ArgInt (ids ! k)) [i..<n])"
proof (induction ids i n "(b, args)" arbitrary: b args rule: songJoins.induct)
  case (1 ids i n b args)
  show ?case
  proof (cases "i < n")
    case True
    then have "[i..<n] = i # [Suc i..<n]" by (simp add: upt_conv_Cons)
    then show ?thesis using True "1.hyps" songJoins.simps [of ids i n b args]
      by (simp add: Let_def songsJoin_def)
  next
    case False
    then show ?thesis using songJoins.simps [of ids i n b args] by simp
  qed
qed

lemma segueTypes_eq:
  "segueTypes ops i n (b, args) =
     (b @ concat (map segueTypeConstraint [i..<n - 1]),
      args @ map (\<lambda>k. ArgStr (segueOpToSQL (ops ! k))) [i..<n - 1])"
proof (induction ops i n "(b, args)" arbitrary: b args rule: segueTypes.induct)
  case (1 ops i n b args)
  show ?case
  proof (cases "i < n - 1")
    case True
    then have "[i..<n - 1] = i # [Suc i..<n - 1]" by (simp add: upt_conv_Cons)
    then show ?thesis using True "1.hyps" segueTypes.simps [of ops i n b args]
      by (simp add: segueTypeConstraint_def)
  next
    case False
    then show ?thesis using segueTypes.simps [of ops i n b args] by simp
  qed
qed

end
